theory Spec2Isabelle
  imports Complex_Main
begin

section \<open>Python floats\<close>

text \<open>
  The driver computes with Python floats. Finite values are modelled by exact reals
  (rounding and overflow are not modelled); the special values \<open>float('inf')\<close>,
  \<open>-float('inf')\<close> and \<open>nan\<close> are constructors of their own, with the IEEE rules
  for arithmetic and comparison. Signed zeros are not distinguished.
\<close>

datatype pyfloat = Fin real | PInf | NInf | NaN

fun pf_neg :: "pyfloat \<Rightarrow> pyfloat" where
  "pf_neg (Fin a) = Fin (- a)"
| "pf_neg PInf = NInf"
| "pf_neg NInf = PInf"
| "pf_neg NaN = NaN"

fun pf_add :: "pyfloat \<Rightarrow> pyfloat \<Rightarrow> pyfloat" where
  "pf_add (Fin a) (Fin b) = Fin (a + b)"
| "pf_add NaN _ = NaN"
| "pf_add _ NaN = NaN"
| "pf_add PInf NInf = NaN"
| "pf_add NInf PInf = NaN"
| "pf_add PInf _ = PInf"
| "pf_add _ PInf = PInf"
| "pf_add NInf _ = NInf"
| "pf_add _ NInf = NInf"

definition pf_sub :: "pyfloat \<Rightarrow> pyfloat \<Rightarrow> pyfloat" where
  "pf_sub a b = pf_add a (pf_neg b)"

fun pf_mul :: "pyfloat \<Rightarrow> pyfloat \<Rightarrow> pyfloat" where
  "pf_mul (Fin a) (Fin b) = Fin (a * b)"
| "pf_mul NaN _ = NaN"
| "pf_mul _ NaN = NaN"
| "pf_mul (Fin a) PInf = (if a = 0 then NaN else if 0 < a then PInf else NInf)"
| "pf_mul (Fin a) NInf = (if a = 0 then NaN else if 0 < a then NInf else PInf)"
| "pf_mul PInf (Fin b) = (if b = 0 then NaN else if 0 < b then PInf else NInf)"
| "pf_mul NInf (Fin b) = (if b = 0 then NaN else if 0 < b then NInf else PInf)"
| "pf_mul PInf PInf = PInf"
| "pf_mul NInf NInf = PInf"
| "pf_mul PInf NInf = NInf"
| "pf_mul NInf PInf = NInf"

text \<open>
  Division. A finite divisor \<open>0\<close> raises \<open>ZeroDivisionError\<close> in Python; the only
  division of the driver has the divisor \<open>1 + abs(bestUB)\<close>, which is never zero, and
  the model returns \<open>nan\<close> there.
\<close>

fun pf_div :: "pyfloat \<Rightarrow> pyfloat \<Rightarrow> pyfloat" where
  "pf_div (Fin a) (Fin b) = (if b = 0 then NaN else Fin (a / b))"
| "pf_div NaN _ = NaN"
| "pf_div _ NaN = NaN"
| "pf_div (Fin a) PInf = Fin 0"
| "pf_div (Fin a) NInf = Fin 0"
| "pf_div PInf (Fin b) = (if b = 0 then NaN else if 0 < b then PInf else NInf)"
| "pf_div NInf (Fin b) = (if b = 0 then NaN else if 0 < b then NInf else PInf)"
| "pf_div PInf PInf = NaN"
| "pf_div NInf NInf = NaN"
| "pf_div PInf NInf = NaN"
| "pf_div NInf PInf = NaN"

fun pf_abs :: "pyfloat \<Rightarrow> pyfloat" where
  "pf_abs (Fin a) = Fin \<bar>a\<bar>"
| "pf_abs PInf = PInf"
| "pf_abs NInf = PInf"
| "pf_abs NaN = NaN"

text \<open>Comparisons: every comparison with \<open>nan\<close> is false, except \<open>!=\<close>.\<close>

fun pf_lt :: "pyfloat \<Rightarrow> pyfloat \<Rightarrow> bool" where
  "pf_lt (Fin a) (Fin b) = (a < b)"
| "pf_lt NaN _ = False"
| "pf_lt _ NaN = False"
| "pf_lt _ NInf = False"
| "pf_lt PInf _ = False"
| "pf_lt NInf _ = True"
| "pf_lt _ PInf = True"

fun pf_le :: "pyfloat \<Rightarrow> pyfloat \<Rightarrow> bool" where
  "pf_le (Fin a) (Fin b) = (a \<le> b)"
| "pf_le NaN _ = False"
| "pf_le _ NaN = False"
| "pf_le NInf _ = True"
| "pf_le _ PInf = True"
| "pf_le _ NInf = False"
| "pf_le PInf _ = False"

fun pf_eq :: "pyfloat \<Rightarrow> pyfloat \<Rightarrow> bool" where
  "pf_eq (Fin a) (Fin b) = (a = b)"
| "pf_eq PInf PInf = True"
| "pf_eq NInf NInf = True"
| "pf_eq _ _ = False"

definition pf_ne :: "pyfloat \<Rightarrow> pyfloat \<Rightarrow> bool" where
  "pf_ne a b = (\<not> pf_eq a b)"

text \<open>Python's \<open>min(a, b)\<close> keeps \<open>a\<close> unless \<open>b < a\<close>.\<close>

definition py_min :: "pyfloat \<Rightarrow> pyfloat \<Rightarrow> pyfloat" where
  "py_min a b = (if pf_lt b a then b else a)"


section \<open>Errors and dictionaries\<close>

text \<open>
  Every exception the modelled code can raise is a value. A dictionary built by the program
  is a map; reading a missing key raises \<open>KeyError\<close>.
\<close>

datatype error = KeyError | ValueError | IndexError | AssertionError string

definition bindE :: "error + 'a \<Rightarrow> ('a \<Rightarrow> error + 'b) \<Rightarrow> error + 'b" where
  "bindE m f = (case m of Inl e \<Rightarrow> Inl e | Inr x \<Rightarrow> f x)"

definition py_get :: "('k \<rightharpoonup> 'v) \<Rightarrow> 'k \<Rightarrow> error + 'v" where
  "py_get m k = (case m k of None \<Rightarrow> Inl KeyError | Some v \<Rightarrow> Inr v)"

text \<open>
  \<open>sum\<close> over a generator whose terms may raise: the terms are evaluated from left to
  right and the first exception ends the sum.
\<close>

fun py_sumE_from :: "pyfloat \<Rightarrow> (error + pyfloat) list \<Rightarrow> error + pyfloat" where
  "py_sumE_from acc [] = Inr acc"
| "py_sumE_from acc (Inl e # ts) = Inl e"
| "py_sumE_from acc (Inr x # ts) = py_sumE_from (pf_add acc x) ts"

definition py_sumE :: "(error + pyfloat) list \<Rightarrow> error + pyfloat" where
  "py_sumE ts = py_sumE_from (Fin 0) ts"

section \<open>The problem instance\<close>

text \<open>
  The instance \<open>d\<close>: the index sets as lists (the order of iteration matters for the order
  of terms and constraints) and the data dictionaries. User, VM, provider and router
  identifiers are strings (the evaluator recovers them from constraint names, and the
  subproblem builder reads the first character of an arc's tail); a scenario identifier is
  of any type. The data dictionaries are total on the identifiers (the caller's contract).
\<close>

record 's data =
  users :: "string list"
  VMs :: "string list"
  providers :: "string list"
  routers :: "string list"
  arcs :: "(string \<times> string) list"
  scenarios :: "'s list"
  prob :: "'s \<Rightarrow> pyfloat"
  VM_rcost :: "string \<Rightarrow> pyfloat"
  R_rcost :: "string \<Rightarrow> pyfloat"
  VM_ucost :: "'s \<times> string \<Rightarrow> pyfloat"
  R_ucost :: "'s \<times> string \<Rightarrow> pyfloat"
  VM_ocost :: "'s \<times> string \<Rightarrow> pyfloat"
  R_ocost :: "'s \<times> string \<Rightarrow> pyfloat"
  VM_CDemand :: "string \<Rightarrow> pyfloat"
  VM_SDemand :: "string \<Rightarrow> pyfloat"
  VM_MDemand :: "string \<Rightarrow> pyfloat"
  VM_BDemand :: "string \<Rightarrow> pyfloat"
  P_CCapacity :: "string \<Rightarrow> pyfloat"
  P_SCapacity :: "string \<Rightarrow> pyfloat"
  P_MCapacity :: "string \<Rightarrow> pyfloat"
  R_BCapacity :: "string \<Rightarrow> pyfloat"
  VM_demands :: "'s \<times> string \<times> string \<Rightarrow> pyfloat"

section \<open>Linear models\<close>

text \<open>
  A variable of the engine is identified by its family and its key. A linear expression
  is the list of its terms, in the order the source adds them, and a constant. A
  constraint reads \<open>lhs sense rhs_terms + rhs\<close>; \<open>crhs\<close> is the constant the engine
  keeps as the attribute \<open>rhs\<close>.
\<close>

datatype 's var =
    XR string string string | YR string string | ETA 's
  | XU string string string | YU string string
  | XO string string string | YO string string
  | FL string string string

datatype vtype = CONTINUOUS | INTEGER

datatype sense = LE | GE | EQ

datatype modelsense = MINIMIZE | MAXIMIZE

type_synonym 's terms = "(pyfloat \<times> 's var) list"

record 's vardecl =
  vkey :: "'s var"
  vlb :: pyfloat
  vub :: pyfloat
  vty :: vtype

record 's constr =
  cname :: string
  clhs :: "'s terms"
  csense :: sense
  crhs_terms :: "'s terms"
  crhs :: pyfloat

record 's model =
  mname :: string
  mvars :: "'s vardecl list"
  mobj :: "'s terms"
  msense :: modelsense
  mconstrs :: "'s constr list"

section \<open>The dual objective and the cut of one scenario\<close>

text \<open>The result of \<open>modifyAndSolveSP\<close>: the objective and the seven dictionaries of duals.\<close>

record sp_out =
  SPobj :: pyfloat
  vu_pisol :: "string \<times> string \<times> string \<rightharpoonup> pyfloat"
  ru_pisol :: "string \<times> string \<rightharpoonup> pyfloat"
  c_pisol :: "string \<rightharpoonup> pyfloat"
  s_pisol :: "string \<rightharpoonup> pyfloat"
  m_pisol :: "string \<rightharpoonup> pyfloat"
  b_pisol :: "string \<rightharpoonup> pyfloat"
  d_pisol :: "string \<times> string \<rightharpoonup> pyfloat"

text \<open>
  One term of the three provider capacity sums (lines 61-63 and 75-77):
  \<open>pisol[p] * cap[p] if cap[p] != float('inf') else 0\<close>. The dual is read only when
  the capacity is not infinite.
\<close>

definition cap_term :: "(string \<rightharpoonup> pyfloat) \<Rightarrow> (string \<Rightarrow> pyfloat) \<Rightarrow> string \<Rightarrow> error + pyfloat" where
  "cap_term pisol cap p =
     (if pf_ne (cap p) PInf then bindE (py_get pisol p) (\<lambda>price. Inr (pf_mul price (cap p)))
      else Inr (Fin 0))"

text \<open>One term of the bandwidth sum (lines 64 and 78): \<open>b_pisol[r] * d.R_BCapacity[r]\<close>.\<close>

definition bw_term :: "(string \<rightharpoonup> pyfloat) \<Rightarrow> (string \<Rightarrow> pyfloat) \<Rightarrow> string \<Rightarrow> error + pyfloat" where
  "bw_term pisol cap r = bindE (py_get pisol r) (\<lambda>price. Inr (pf_mul price (cap r)))"

text \<open>One term of the demand sum (lines 65 and 79).\<close>

definition dem_term :: "'s data \<Rightarrow> 's \<Rightarrow> (string \<times> string \<rightharpoonup> pyfloat) \<Rightarrow> string \<times> string \<Rightarrow> error + pyfloat" where
  "dem_term d s pisol uv =
     bindE (py_get pisol uv) (\<lambda>price. Inr (pf_mul price (VM_demands d (s, fst uv, snd uv))))"

text \<open>The five constant sums, shared by the dual objective and the cut, in source order.\<close>

definition const_sums :: "'s data \<Rightarrow> 's \<Rightarrow> sp_out \<Rightarrow> (error + pyfloat) list" where
  "const_sums d s out =
     [py_sumE (map (cap_term (c_pisol out) (P_CCapacity d)) (providers d)),
      py_sumE (map (cap_term (s_pisol out) (P_SCapacity d)) (providers d)),
      py_sumE (map (cap_term (m_pisol out) (P_MCapacity d)) (providers d)),
      py_sumE (map (bw_term (b_pisol out) (R_BCapacity d)) (routers d)),
      py_sumE (map (dem_term d s (d_pisol out)) [(u, v). v \<leftarrow> VMs d, u \<leftarrow> users d])]"

text \<open>
  \<open>a + b + c + ...\<close> where each operand may raise: the operands are evaluated from left
  to right, and added to the value so far.
\<close>

fun add_all :: "pyfloat \<Rightarrow> (error + pyfloat) list \<Rightarrow> error + pyfloat" where
  "add_all acc [] = Inr acc"
| "add_all acc (Inl e # ts) = Inl e"
| "add_all acc (Inr x # ts) = add_all (pf_add acc x) ts"

text \<open>Lines 59-65: the dual objective at the fixed first-stage values.\<close>

definition dualSPobj ::
  "'s data \<Rightarrow> 's \<Rightarrow> (string \<times> string \<times> string \<rightharpoonup> pyfloat) \<Rightarrow> (string \<times> string \<rightharpoonup> pyfloat)
     \<Rightarrow> sp_out \<Rightarrow> error + pyfloat" where
  "dualSPobj d s xrsol yrsol out =
     bindE (py_sumE [bindE (py_get xrsol (u, v, p)) (\<lambda>x. bindE (py_get (vu_pisol out) (u, v, p))
                        (\<lambda>price. Inr (pf_mul x price))).
                     p \<leftarrow> providers d, v \<leftarrow> VMs d, u \<leftarrow> users d])
       (\<lambda>s1. bindE (py_sumE [bindE (py_get yrsol (u, r)) (\<lambda>y. bindE (py_get (ru_pisol out) (u, r))
                        (\<lambda>price. Inr (pf_mul y price))).
                     r \<leftarrow> routers d, u \<leftarrow> users d])
       (\<lambda>s2. add_all (pf_add s1 s2) (const_sums d s out)))"

text \<open>
  Lines 73-79: the right-hand side of the cut, a linear expression over the first-stage
  variables. A sum of \<open>variable * dual\<close> terms is a linear expression with constant \<open>0\<close>;
  the five constant sums are then added to the constant one after the other.
\<close>

definition cut_terms_x :: "'s data \<Rightarrow> sp_out \<Rightarrow> (error + pyfloat \<times> 's var) list" where
  "cut_terms_x d out =
     [bindE (py_get (vu_pisol out) (u, v, p)) (\<lambda>price. Inr (price, XR u v p)).
        p \<leftarrow> providers d, v \<leftarrow> VMs d, u \<leftarrow> users d]"

definition cut_terms_y :: "'s data \<Rightarrow> sp_out \<Rightarrow> (error + pyfloat \<times> 's var) list" where
  "cut_terms_y d out =
     [bindE (py_get (ru_pisol out) (u, r)) (\<lambda>price. Inr (price, YR u r)).
        r \<leftarrow> routers d, u \<leftarrow> users d]"

fun collectE :: "(error + 'a) list \<Rightarrow> error + 'a list" where
  "collectE [] = Inr []"
| "collectE (Inl e # ts) = Inl e"
| "collectE (Inr x # ts) = bindE (collectE ts) (\<lambda>xs. Inr (x # xs))"

definition cut_expr :: "'s data \<Rightarrow> 's \<Rightarrow> sp_out \<Rightarrow> error + ('s terms \<times> pyfloat)" where
  "cut_expr d s out =
     bindE (collectE (cut_terms_x d out))
       (\<lambda>tx. bindE (collectE (cut_terms_y d out))
       (\<lambda>ty. bindE (add_all (Fin 0) (const_sums d s out))
       (\<lambda>c. Inr (tx @ ty, c))))"

text \<open>Line 83: the constraint \<open>n[s] >= expr\<close>.\<close>

definition benders_cut :: "'s \<Rightarrow> 's terms \<times> pyfloat \<Rightarrow> 's constr" where
  "benders_cut s e =
     \<lparr>cname = [], clhs = [(Fin 1, ETA s)], csense = GE, crhs_terms = fst e, crhs = snd e\<rparr>"

section \<open>The engine\<close>

text \<open>
  The LP/MILP engine is an external collaborator: a parameter of the model. Given a model
  it returns the objective value, the value of every variable and the dual price of every
  constraint (by its position in the model). It is assumed to report a solution on every
  call; what it reports is a function of the model it is given.
\<close>

record 's solution =
  objVal :: pyfloat
  xval :: "'s var \<Rightarrow> pyfloat"
  pival :: "nat \<Rightarrow> pyfloat"

type_synonym 's engine = "'s model \<Rightarrow> 's solution"

text \<open>
  \<open>Model(name)\<close>: an empty model; the sense of a new model is minimisation.
  The parameters \<open>outputFlag\<close> and \<open>method\<close> only steer the engine and are not modelled.
\<close>

definition Model :: "string \<Rightarrow> 's model" where
  "Model n = \<lparr>mname = n, mvars = [], mobj = [], msense = MINIMIZE, mconstrs = []\<rparr>"

text \<open>
  \<open>addVars(keys, vtype=...)\<close> with no bound given: the engine's defaults are the lower
  bound \<open>0.0\<close> and the upper bound \<open>float('inf')\<close>.
\<close>

definition GRB_default_lb :: pyfloat where
  "GRB_default_lb = Fin 0"

definition addVars :: "'s var list \<Rightarrow> vtype \<Rightarrow> 's model \<Rightarrow> 's model" where
  "addVars keys vt m =
     m\<lparr>mvars := mvars m @ map (\<lambda>k. \<lparr>vkey = k, vlb = GRB_default_lb, vub = PInf, vty = vt\<rparr>) keys\<rparr>"

definition addConstrs :: "'s constr list \<Rightarrow> 's model \<Rightarrow> 's model" where
  "addConstrs cs m = m\<lparr>mconstrs := mconstrs m @ cs\<rparr>"

definition addConstr :: "'s constr \<Rightarrow> 's model \<Rightarrow> 's model" where
  "addConstr c m = m\<lparr>mconstrs := mconstrs m @ [c]\<rparr>"

definition setObjective :: "'s terms \<Rightarrow> 's model \<Rightarrow> 's model" where
  "setObjective e m = m\<lparr>mobj := e\<rparr>"

section \<open>Constraint names\<close>

text \<open>
  \<open>addConstrs(generator, name=fam)\<close> names each constraint \<open>fam[k1,k2,...]\<close>, the keys
  being the values of the generator's loop variables, in the order of its \<open>for\<close> clauses.
\<close>

fun join_comma :: "string list \<Rightarrow> string" where
  "join_comma [] = []"
| "join_comma [k] = k"
| "join_comma (k # ks) = k @ '','' @ join_comma ks"

definition constr_name :: "string \<Rightarrow> string list \<Rightarrow> string" where
  "constr_name fam keys = fam @ ''['' @ join_comma keys @ '']''"

text \<open>\<open>str.split(c)\<close> for a separator of one character.\<close>

fun split_on :: "char \<Rightarrow> string \<Rightarrow> string list" where
  "split_on c [] = [[]]"
| "split_on c (x # xs) =
     (if x = c then [] # split_on c xs
      else (case split_on c xs of [] \<Rightarrow> [[x]] | w # ws \<Rightarrow> (x # w) # ws))"

text \<open>
  \<open>name, index = constr.constrName[:-1].split('[')\<close>: unpacking anything but two parts
  raises \<open>ValueError\<close>.
\<close>

definition parse_name :: "string \<Rightarrow> error + string \<times> string" where
  "parse_name n =
     (case split_on CHR ''['' (butlast n) of [a, b] \<Rightarrow> Inr (a, b) | _ \<Rightarrow> Inl ValueError)"

definition unpack2 :: "'a list \<Rightarrow> error + 'a \<times> 'a" where
  "unpack2 xs = (case xs of [a, b] \<Rightarrow> Inr (a, b) | _ \<Rightarrow> Inl ValueError)"

definition unpack3 :: "'a list \<Rightarrow> error + 'a \<times> 'a \<times> 'a" where
  "unpack3 xs = (case xs of [a, b, c] \<Rightarrow> Inr (a, b, c) | _ \<Rightarrow> Inl ValueError)"

fun mapE :: "('a \<Rightarrow> error + 'b) \<Rightarrow> 'a list \<Rightarrow> error + 'b list" where
  "mapE f [] = Inr []"
| "mapE f (x # xs) = bindE (f x) (\<lambda>y. bindE (mapE f xs) (\<lambda>ys. Inr (y # ys)))"

section \<open>The subproblem builder\<close>

text \<open>\<open>e_out[0] == 'P'\<close>: indexing the empty string raises \<open>IndexError\<close>.\<close>

definition first_is_P :: "string \<Rightarrow> error + bool" where
  "first_is_P e = (case e of [] \<Rightarrow> Inl IndexError | c # _ \<Rightarrow> Inr (c = CHR ''P''))"

text \<open>A generator with a condition that may raise: the arcs are tested from left to right.\<close>

fun filterE :: "('a \<Rightarrow> error + bool) \<Rightarrow> 'a list \<Rightarrow> error + 'a list" where
  "filterE t [] = Inr []"
| "filterE t (x # xs) =
     bindE (t x) (\<lambda>b. bindE (filterE t xs) (\<lambda>ys. Inr (if b then x # ys else ys)))"

definition flow :: "string \<Rightarrow> string \<times> string \<Rightarrow> pyfloat \<times> 's var" where
  "flow u a = (Fin 1, FL u (fst a) (snd a))"

text \<open>\<open>c * (xu[u,v,p] + xo[u,v,p])\<close>: two terms with the coefficient \<open>c\<close>.\<close>

definition use_terms :: "pyfloat \<Rightarrow> string \<Rightarrow> string \<Rightarrow> string \<Rightarrow> 's terms" where
  "use_terms c u v p = [(c, XU u v p), (c, XO u v p)]"

definition cap_constrs :: "'s data \<Rightarrow> string \<Rightarrow> (string \<Rightarrow> pyfloat) \<Rightarrow> (string \<Rightarrow> pyfloat) \<Rightarrow> 's constr list" where
  "cap_constrs d fam dem cap =
     [\<lparr>cname = constr_name fam [p],
       clhs = concat [use_terms (dem v) u v p. u \<leftarrow> users d, v \<leftarrow> VMs d],
       csense = LE, crhs_terms = [], crhs = cap p\<rparr>. p \<leftarrow> providers d]"

text \<open>Lines 202-204: the user balance constraint of one user.\<close>

definition u_balance :: "'s data \<Rightarrow> string \<Rightarrow> error + 's constr" where
  "u_balance d u =
     bindE (filterE (\<lambda>a. first_is_P (fst a)) (arcs d))
       (\<lambda>from_P. Inr \<lparr>cname = constr_name ''U balance'' [u],
                      clhs = map (flow u) (filter (\<lambda>a. snd a = u) (arcs d)),
                      csense = EQ, crhs_terms = map (flow u) from_P, crhs = Fin 0\<rparr>)"

definition buildSP :: "'s data \<Rightarrow> error + 's model" where
  "buildSP d =
     (let SP = Model ''SP'';
          SP = addVars [XU u v p. u \<leftarrow> users d, v \<leftarrow> VMs d, p \<leftarrow> providers d] CONTINUOUS SP;
          SP = addVars [YU u r. u \<leftarrow> users d, r \<leftarrow> routers d] CONTINUOUS SP;
          SP = addVars [XO u v p. u \<leftarrow> users d, v \<leftarrow> VMs d, p \<leftarrow> providers d] CONTINUOUS SP;
          SP = addVars [YO u r. u \<leftarrow> users d, r \<leftarrow> routers d] CONTINUOUS SP;
          SP = addVars [FL u (fst a) (snd a). u \<leftarrow> users d, a \<leftarrow> arcs d] CONTINUOUS SP;
          SP = SP\<lparr>msense := MINIMIZE\<rparr>;
          SP = addConstrs
                 [\<lparr>cname = constr_name ''VM utilization bound'' [p, v, u],
                   clhs = [(Fin 1, XU u v p)], csense = LE, crhs_terms = [], crhs = Fin 0\<rparr>.
                  p \<leftarrow> providers d, v \<leftarrow> VMs d, u \<leftarrow> users d] SP;
          SP = addConstrs
                 [\<lparr>cname = constr_name ''R utilization bound'' [r, u],
                   clhs = [(Fin 1, YU u r)], csense = LE, crhs_terms = [], crhs = Fin 0\<rparr>.
                  r \<leftarrow> routers d, u \<leftarrow> users d] SP;
          SP = addConstrs (cap_constrs d ''CPU capacity'' (VM_CDemand d) (P_CCapacity d)) SP;
          SP = addConstrs (cap_constrs d ''Storage capacity'' (VM_SDemand d) (P_SCapacity d)) SP;
          SP = addConstrs (cap_constrs d ''Memory capacity'' (VM_MDemand d) (P_MCapacity d)) SP;
          SP = addConstrs
                 [\<lparr>cname = constr_name ''Bandwidth capacity'' [r],
                   clhs = concat [[(Fin 1, YU u r), (Fin 1, YO u r)]. u \<leftarrow> users d],
                   csense = LE, crhs_terms = [], crhs = R_BCapacity d r\<rparr>.
                  r \<leftarrow> routers d] SP;
          SP = addConstrs
                 [\<lparr>cname = constr_name ''VM demand'' [v, u],
                   clhs = concat [use_terms (Fin 1) u v p. p \<leftarrow> providers d],
                   csense = GE, crhs_terms = [], crhs = Fin 0\<rparr>.
                  v \<leftarrow> VMs d, u \<leftarrow> users d] SP;
          SP = addConstrs
                 [\<lparr>cname = constr_name ''R balance'' [u, r],
                   clhs = map (flow u) (filter (\<lambda>a. snd a = r) (arcs d)),
                   csense = EQ,
                   crhs_terms = map (flow u) (filter (\<lambda>a. fst a = r) (arcs d)), crhs = Fin 0\<rparr>.
                  u \<leftarrow> users d, r \<leftarrow> routers d] SP;
          SP = addConstrs
                 [\<lparr>cname = constr_name ''R usage'' [u, r],
                   clhs = map (flow u) (filter (\<lambda>a. fst a = r) (arcs d)),
                   csense = EQ,
                   crhs_terms = [(Fin 1, YU u r), (Fin 1, YO u r)], crhs = Fin 0\<rparr>.
                  u \<leftarrow> users d, r \<leftarrow> routers d] SP;
          SP = addConstrs
                 [\<lparr>cname = constr_name ''R demand'' [p, u],
                   clhs = map (flow u) (filter (\<lambda>a. fst a = p) (arcs d)),
                   csense = GE,
                   crhs_terms = concat [use_terms (VM_BDemand d v) u v p. v \<leftarrow> VMs d],
                   crhs = Fin 0\<rparr>.
                  p \<leftarrow> providers d, u \<leftarrow> users d] SP
      in bindE (mapE (u_balance d) (users d)) (\<lambda>cs. Inr (addConstrs cs SP)))"

section \<open>The scenario evaluator\<close>

type_synonym xsol = "string \<times> string \<times> string \<rightharpoonup> pyfloat"
type_synonym ysol = "string \<times> string \<rightharpoonup> pyfloat"

text \<open>Lines 216-227: the body of the first loop, for one constraint.\<close>

definition modify_rhs :: "'s data \<Rightarrow> 's \<Rightarrow> xsol \<Rightarrow> ysol \<Rightarrow> 's constr \<Rightarrow> error + 's constr" where
  "modify_rhs d s xrsol yrsol c =
     bindE (parse_name (cname c)) (\<lambda>(name, index).
       if name = ''VM utilization bound'' then
         bindE (unpack3 (split_on CHR '','' index)) (\<lambda>(p, v, u).
           bindE (py_get xrsol (u, v, p)) (\<lambda>x. Inr (c\<lparr>crhs := x\<rparr>)))
       else if name = ''R utilization bound'' then
         bindE (unpack2 (split_on CHR '','' index)) (\<lambda>(r, u).
           bindE (py_get yrsol (u, r)) (\<lambda>y. Inr (c\<lparr>crhs := y\<rparr>)))
       else if name = ''VM demand'' then
         bindE (unpack2 (split_on CHR '','' index)) (\<lambda>(v, u).
           Inr (c\<lparr>crhs := VM_demands d (s, u, v)\<rparr>))
       else Inr c)"

text \<open>Lines 230-233: the objective of scenario \<open>s\<close>.\<close>

definition sp_objective :: "'s data \<Rightarrow> 's \<Rightarrow> 's terms" where
  "sp_objective d s =
     [(VM_ucost d (s, v), XU u v p). p \<leftarrow> providers d, v \<leftarrow> VMs d, u \<leftarrow> users d]
     @ [(R_ucost d (s, r), YU u r). r \<leftarrow> routers d, u \<leftarrow> users d]
     @ [(VM_ocost d (s, v), XO u v p). p \<leftarrow> providers d, v \<leftarrow> VMs d, u \<leftarrow> users d]
     @ [(R_ocost d (s, r), YO u r). r \<leftarrow> routers d, u \<leftarrow> users d]"

text \<open>Lines 216-234: all the mutation of the shared subproblem model.\<close>

definition modifySP :: "'s data \<Rightarrow> 's \<Rightarrow> xsol \<Rightarrow> ysol \<Rightarrow> 's model \<Rightarrow> error + 's model" where
  "modifySP d s xrsol yrsol SP =
     bindE (mapE (modify_rhs d s xrsol yrsol) (mconstrs SP))
       (\<lambda>cs. Inr (setObjective (sp_objective d s) (SP\<lparr>mconstrs := cs\<rparr>)))"

text \<open>Lines 250-268: the body of the second loop, for one constraint and its dual.\<close>

definition record_pi :: "pyfloat \<Rightarrow> 's constr \<Rightarrow> sp_out \<Rightarrow> error + sp_out" where
  "record_pi price c out =
     bindE (parse_name (cname c)) (\<lambda>(name, index).
       if name = ''VM utilization bound'' then
         bindE (unpack3 (split_on CHR '','' index)) (\<lambda>(p, v, u).
           Inr (out\<lparr>vu_pisol := (vu_pisol out)((u, v, p) \<mapsto> price)\<rparr>))
       else if name = ''R utilization bound'' then
         bindE (unpack2 (split_on CHR '','' index)) (\<lambda>(r, u).
           Inr (out\<lparr>ru_pisol := (ru_pisol out)((u, r) \<mapsto> price)\<rparr>))
       else if name = ''CPU capacity'' then Inr (out\<lparr>c_pisol := (c_pisol out)(index \<mapsto> price)\<rparr>)
       else if name = ''Storage capacity'' then Inr (out\<lparr>s_pisol := (s_pisol out)(index \<mapsto> price)\<rparr>)
       else if name = ''Memory capacity'' then Inr (out\<lparr>m_pisol := (m_pisol out)(index \<mapsto> price)\<rparr>)
       else if name = ''Bandwidth capacity'' then Inr (out\<lparr>b_pisol := (b_pisol out)(index \<mapsto> price)\<rparr>)
       else if name = ''VM demand'' then
         bindE (unpack2 (split_on CHR '','' index)) (\<lambda>(v, u).
           Inr (out\<lparr>d_pisol := (d_pisol out)((u, v) \<mapsto> price)\<rparr>))
       else Inr out)"

fun collect_pis :: "(nat \<Rightarrow> pyfloat) \<Rightarrow> nat \<Rightarrow> 's constr list \<Rightarrow> sp_out \<Rightarrow> error + sp_out" where
  "collect_pis pis i [] out = Inr out"
| "collect_pis pis i (c # cs) out = bindE (record_pi (pis i) c out) (collect_pis pis (Suc i) cs)"

definition empty_out :: "pyfloat \<Rightarrow> sp_out" where
  "empty_out q =
     \<lparr>SPobj = q, vu_pisol = Map.empty, ru_pisol = Map.empty, c_pisol = Map.empty,
      s_pisol = Map.empty, m_pisol = Map.empty, b_pisol = Map.empty, d_pisol = Map.empty\<rparr>"

text \<open>
  \<open>modifyAndSolveSP\<close>: the mutated model is returned with the result, since the model is
  shared by all the calls.
\<close>

definition modifyAndSolveSP ::
  "'s engine \<Rightarrow> 's \<Rightarrow> xsol \<Rightarrow> ysol \<Rightarrow> 's model \<Rightarrow> 's data \<Rightarrow> error + 's model \<times> sp_out" where
  "modifyAndSolveSP eng s xrsol yrsol SP d =
     bindE (modifySP d s xrsol yrsol SP)
       (\<lambda>SP'. let sol = eng SP' in
          bindE (collect_pis (pival sol) 0 (mconstrs SP') (empty_out (objVal sol)))
            (\<lambda>out. Inr (SP', out)))"

section \<open>The master builder\<close>

definition mp_objective :: "'s data \<Rightarrow> 's terms" where
  "mp_objective d =
     [(VM_rcost d v, XR u v p). p \<leftarrow> providers d, v \<leftarrow> VMs d, u \<leftarrow> users d]
     @ [(R_rcost d r, YR u r). r \<leftarrow> routers d, u \<leftarrow> users d]
     @ [(prob d s, ETA s). s \<leftarrow> scenarios d]"

definition buildMP :: "'s data \<Rightarrow> 's model" where
  "buildMP d =
     (let MP = Model ''MP'';
          MP = addVars [XR u v p. u \<leftarrow> users d, v \<leftarrow> VMs d, p \<leftarrow> providers d] INTEGER MP;
          MP = addVars [YR u r. u \<leftarrow> users d, r \<leftarrow> routers d] CONTINUOUS MP;
          MP = addVars [ETA s. s \<leftarrow> scenarios d] CONTINUOUS MP;
          MP = setObjective (mp_objective d) MP
      in MP\<lparr>msense := MINIMIZE\<rparr>)"

section \<open>The Benders driver\<close>

text \<open>
  The variables of the driver. \<open>MPobj\<close> and \<open>UB\<close> are unbound in the source until the
  first iteration assigns them; the loop body runs at least once before either is read.
\<close>

record 's bstate =
  st_MP :: "'s model"
  st_SP :: "'s model"
  bestUB :: pyfloat
  cutFound :: bool
  noIters :: nat
  noCuts :: nat
  MPobj :: pyfloat
  UB :: pyfloat

fun foldE :: "('b \<Rightarrow> 'a \<Rightarrow> error + 'b) \<Rightarrow> 'b \<Rightarrow> 'a list \<Rightarrow> error + 'b" where
  "foldE f st [] = Inr st"
| "foldE f st (x # xs) = bindE (f st x) (\<lambda>st'. foldE f st' xs)"

text \<open>The float literal \<open>1e-4\<close>, as the exact real.\<close>

definition tol_1e4 :: pyfloat where
  "tol_1e4 = Fin (1 / 10000)"

text \<open>
  Lines 68-83, after the check of strong duality: the upper bound takes the weighted cost
  of the scenario, and the cut is added to the master when it is violated. The expression
  of the cut is built whether or not the cut is added.
\<close>

definition after_check ::
  "'s data \<Rightarrow> pyfloat \<Rightarrow> ('s \<rightharpoonup> pyfloat) \<Rightarrow> 's bstate \<Rightarrow> 's \<Rightarrow> 's model \<Rightarrow> sp_out
     \<Rightarrow> error + 's bstate" where
  "after_check d cutViolationTolerance nsol st s SP' out =
     bindE (py_get nsol s) (\<lambda>eta.
       bindE (cut_expr d s out) (\<lambda>expr.
         Inr (if pf_lt eta (pf_sub (SPobj out) cutViolationTolerance)
              then st\<lparr>st_SP := SP', UB := pf_add (UB st) (pf_mul (prob d s) (SPobj out)),
                      cutFound := True, noCuts := noCuts st + 1,
                      st_MP := addConstr (benders_cut s expr) (st_MP st)\<rparr>
              else st\<lparr>st_SP := SP', UB := pf_add (UB st) (pf_mul (prob d s) (SPobj out))\<rparr>)))"

text \<open>Lines 55-83: the body of the loop over the scenarios.\<close>

definition scenario_body ::
  "'s engine \<Rightarrow> 's data \<Rightarrow> pyfloat \<Rightarrow> xsol \<Rightarrow> ysol \<Rightarrow> ('s \<rightharpoonup> pyfloat) \<Rightarrow> 's bstate \<Rightarrow> 's
     \<Rightarrow> error + 's bstate" where
  "scenario_body eng d cutViolationTolerance xrsol yrsol nsol st s =
     bindE (modifyAndSolveSP eng s xrsol yrsol (st_SP st) d) (\<lambda>(SP', out).
     bindE (dualSPobj d s xrsol yrsol out) (\<lambda>dual.
       if \<not> pf_lt (pf_abs (pf_sub dual (SPobj out))) tol_1e4
       then Inl (AssertionError ''Strong duality'')
       else after_check d cutViolationTolerance nsol st s SP' out))"

text \<open>Lines 36-48: the dictionaries of the master's solution.\<close>

definition xrsol_of :: "'s data \<Rightarrow> 's solution \<Rightarrow> xsol" where
  "xrsol_of d sol =
     map_of [((u, v, p), xval sol (XR u v p)). u \<leftarrow> users d, v \<leftarrow> VMs d, p \<leftarrow> providers d]"

definition yrsol_of :: "'s data \<Rightarrow> 's solution \<Rightarrow> ysol" where
  "yrsol_of d sol = map_of [((u, r), xval sol (YR u r)). u \<leftarrow> users d, r \<leftarrow> routers d]"

definition nsol_of :: "'s data \<Rightarrow> 's solution \<Rightarrow> ('s \<rightharpoonup> pyfloat)" where
  "nsol_of d sol = map_of [(s, xval sol (ETA s)). s \<leftarrow> scenarios d]"

text \<open>Lines 51-52: the first part of the upper bound, the cost of the reservations.\<close>

definition reservation_cost :: "'s data \<Rightarrow> xsol \<Rightarrow> ysol \<Rightarrow> error + pyfloat" where
  "reservation_cost d xrsol yrsol =
     bindE (py_sumE [bindE (py_get xrsol (u, v, p)) (\<lambda>x. Inr (pf_mul (VM_rcost d v) x)).
                     p \<leftarrow> providers d, v \<leftarrow> VMs d, u \<leftarrow> users d])
       (\<lambda>c1. bindE (py_sumE [bindE (py_get yrsol (u, r)) (\<lambda>y. Inr (pf_mul (R_rcost d r) y)).
                             r \<leftarrow> routers d, u \<leftarrow> users d])
       (\<lambda>c2. Inr (pf_add c1 c2)))"

text \<open>Lines 25-86: one iteration, up to the update of the best upper bound.\<close>

definition iteration :: "'s engine \<Rightarrow> 's data \<Rightarrow> pyfloat \<Rightarrow> 's bstate \<Rightarrow> error + 's bstate" where
  "iteration eng d cutViolationTolerance st =
     (let st = st\<lparr>noIters := noIters st + 1, cutFound := False\<rparr>;
          sol = eng (st_MP st);
          st = st\<lparr>MPobj := objVal sol\<rparr>;
          xrsol = xrsol_of d sol;
          yrsol = yrsol_of d sol;
          nsol = nsol_of d sol
      in bindE (reservation_cost d xrsol yrsol)
           (\<lambda>ub. bindE (foldE (scenario_body eng d cutViolationTolerance xrsol yrsol nsol)
                           (st\<lparr>UB := ub\<rparr>) (scenarios d))
           (\<lambda>st. Inr (st\<lparr>bestUB := py_min (UB st) (bestUB st)\<rparr>))))"

text \<open>Line 92: the quantity of the convergence check.\<close>

definition gap :: "'s bstate \<Rightarrow> pyfloat" where
  "gap st = pf_div (pf_sub (bestUB st) (MPobj st)) (pf_add (Fin 1) (pf_abs (bestUB st)))"

text \<open>
  Lines 24-94: the loop, with fuel (\<open>None\<close>: the fuel ran out). The result carries the
  final state and whether the message \<open>The algorithm converges.\<close> was printed.
\<close>

fun benders_loop ::
  "nat \<Rightarrow> 's engine \<Rightarrow> 's data \<Rightarrow> pyfloat \<Rightarrow> pyfloat \<Rightarrow> 's bstate \<Rightarrow> (error + 's bstate \<times> bool) option" where
  "benders_loop 0 eng d tol epsilon st = None"
| "benders_loop (Suc k) eng d tol epsilon st =
     (if cutFound st then
        (case iteration eng d tol st of
           Inl e \<Rightarrow> Some (Inl e)
         | Inr st' \<Rightarrow>
             if pf_le (gap st') epsilon then Some (Inr (st', True))
             else benders_loop k eng d tol epsilon st')
      else Some (Inr (st, False)))"

text \<open>Lines 16-19: the initial values; \<open>GRB.INFINITY\<close> is the finite float \<open>1e100\<close>.\<close>

definition GRB_INFINITY :: pyfloat where
  "GRB_INFINITY = Fin (10 ^ 100)"

definition init_state :: "'s model \<Rightarrow> 's model \<Rightarrow> 's bstate" where
  "init_state MP SP =
     \<lparr>st_MP = MP, st_SP = SP, bestUB = GRB_INFINITY, cutFound = True, noIters = 0, noCuts = 0,
      MPobj = Fin 0, UB = Fin 0\<rparr>"

text \<open>
  \<open>multiBenders\<close>: the returned tuple \<open>(MPobj, elapsed, noIters, noCuts)\<close>. The two readings
  of the clock are parameters; printing is not modelled.
\<close>

definition multiBenders ::
  "nat \<Rightarrow> 's engine \<Rightarrow> pyfloat \<Rightarrow> pyfloat \<Rightarrow> 's data \<Rightarrow> pyfloat \<Rightarrow> pyfloat
     \<Rightarrow> (error + pyfloat \<times> pyfloat \<times> nat \<times> nat) option" where
  "multiBenders fuel eng tick tock d cutViolationTolerance epsilon =
     (case buildSP d of
        Inl e \<Rightarrow> Some (Inl e)
      | Inr SP \<Rightarrow>
          (case benders_loop fuel eng d cutViolationTolerance epsilon (init_state (buildMP d) SP) of
             None \<Rightarrow> None
           | Some (Inl e) \<Rightarrow> Some (Inl e)
           | Some (Inr (st, conv)) \<Rightarrow>
               Some (Inr (MPobj st, pf_sub tock tick, noIters st, noCuts st))))"

section \<open>A small instance\<close>

text \<open>
  One user, one VM type, one provider, one router and one scenario of probability \<open>1\<close>.
  Reserving costs \<open>1\<close>, using a reservation costs \<open>1\<close> more, buying on demand costs \<open>1/2\<close>;
  the demand is one VM, which needs no bandwidth; every capacity is \<open>10\<close>. The optimum
  reserves nothing and buys the VM on demand, at the cost \<open>1/2\<close>.
\<close>

definition ex_d :: "nat data" where
  "ex_d =
     \<lparr>users = [''U1''], VMs = [''V1''], providers = [''P1''], routers = [''R1''],
      arcs = [(''P1'', ''R1''), (''R1'', ''U1'')], scenarios = [0],
      prob = (\<lambda>s. Fin 1), VM_rcost = (\<lambda>v. Fin 1), R_rcost = (\<lambda>r. Fin 1),
      VM_ucost = (\<lambda>k. Fin 1), R_ucost = (\<lambda>k. Fin 1),
      VM_ocost = (\<lambda>k. Fin (1 / 2)), R_ocost = (\<lambda>k. Fin (1 / 2)),
      VM_CDemand = (\<lambda>v. Fin 1), VM_SDemand = (\<lambda>v. Fin 1), VM_MDemand = (\<lambda>v. Fin 1),
      VM_BDemand = (\<lambda>v. Fin 0),
      P_CCapacity = (\<lambda>p. Fin 10), P_SCapacity = (\<lambda>p. Fin 10), P_MCapacity = (\<lambda>p. Fin 10),
      R_BCapacity = (\<lambda>r. Fin 10), VM_demands = (\<lambda>k. Fin 1)\<rparr>"

text \<open>
  What an exact engine reports on this instance. The master without cuts has the optimum
  \<open>0\<close> at the origin; with the cut \<open>eta >= 1/2\<close> it has the optimum \<open>1/2\<close> at \<open>eta = 1/2\<close>.
  The subproblem at the origin has the optimum \<open>1/2\<close>; the dual of the demand constraint
  (the constraint at position 6) is \<open>1/2\<close> and every other dual is \<open>0\<close>.
\<close>

definition ex_engine :: "nat engine" where
  "ex_engine m =
     (if mname m = ''MP'' then
        (if mconstrs m = [] then \<lparr>objVal = Fin 0, xval = (\<lambda>x. Fin 0), pival = (\<lambda>i. Fin 0)\<rparr>
         else \<lparr>objVal = Fin (1 / 2),
               xval = (\<lambda>x. case x of ETA s \<Rightarrow> Fin (1 / 2) | _ \<Rightarrow> Fin 0),
               pival = (\<lambda>i. Fin 0)\<rparr>)
      else \<lparr>objVal = Fin (1 / 2), xval = (\<lambda>x. case x of XO u v p \<Rightarrow> Fin 1 | _ \<Rightarrow> Fin 0),
            pival = (\<lambda>i. if i = 6 then Fin (1 / 2) else Fin 0)\<rparr>)"

definition ex_init :: "nat bstate" where
  "ex_init = init_state (buildMP ex_d) (projr (buildSP ex_d))"

text \<open>The state in which the loop ends on the small instance, for a cut tolerance.\<close>

definition ex_final :: "pyfloat \<Rightarrow> nat bstate" where
  "ex_final tol = fst (projr (the (benders_loop 5 ex_engine ex_d tol tol_1e4 ex_init)))"

section \<open>The violated scenarios of an iteration\<close>

text \<open>
  The scenarios whose \<open>eta\<close> is below the scenario objective minus the tolerance, each with
  its cut, for the scenarios evaluated in order on the shared subproblem model. This is
  the reading of the specification, against which the driver is compared.
\<close>

fun violated ::
  "'s engine \<Rightarrow> 's data \<Rightarrow> pyfloat \<Rightarrow> xsol \<Rightarrow> ysol \<Rightarrow> ('s \<rightharpoonup> pyfloat) \<Rightarrow> 's model \<Rightarrow> 's list
     \<Rightarrow> ('s \<times> 's constr) list" where
  "violated eng d tol xrsol yrsol nsol SP [] = []"
| "violated eng d tol xrsol yrsol nsol SP (s # ss) =
     (case modifyAndSolveSP eng s xrsol yrsol SP d of
        Inl e \<Rightarrow> []
      | Inr (SP', out) \<Rightarrow>
          (case (py_get nsol s, cut_expr d s out) of
             (Inr eta, Inr expr) \<Rightarrow>
               (if pf_lt eta (pf_sub (SPobj out) tol) then [(s, benders_cut s expr)] else [])
               @ violated eng d tol xrsol yrsol nsol SP' ss
           | _ \<Rightarrow> []))"

text \<open>The same engine, but reporting the dual \<open>0\<close> for every constraint.\<close>

definition ex_bad_engine :: "nat engine" where
  "ex_bad_engine m = (ex_engine m)\<lparr>pival := (\<lambda>i. Fin 0)\<rparr>"

text \<open>The first-stage values of the first iteration on the small instance.\<close>

definition ex_xr :: xsol where
  "ex_xr = xrsol_of ex_d (ex_engine (buildMP ex_d))"

definition ex_yr :: ysol where
  "ex_yr = yrsol_of ex_d (ex_engine (buildMP ex_d))"

definition ex_n :: "nat \<rightharpoonup> pyfloat" where
  "ex_n = nsol_of ex_d (ex_engine (buildMP ex_d))"

text \<open>The state after the first iteration, which adds the cut \<open>eta >= 1/2\<close>.\<close>

definition ex_st1 :: "nat bstate" where
  "ex_st1 = projr (iteration ex_engine ex_d tol_1e4 ex_init)"

section \<open>The constraint families the evaluator leaves alone\<close>




section \<open>The intended user balance\<close>



text \<open>The small instance with a negative on-demand cost: its recourse cost is negative.\<close>

definition ex_d_neg :: "nat data" where
  "ex_d_neg = ex_d\<lparr>VM_ocost := (\<lambda>k. Fin (- 1))\<rparr>"


section \<open>The recourse costs of an iteration, and what an exact engine reports\<close>







text \<open>The small instance with a router of infinite bandwidth capacity.\<close>

definition ex_d_inf :: "nat data" where
  "ex_d_inf = ex_d\<lparr>R_BCapacity := (\<lambda>r. PInf)\<rparr>"

definition ex_out_inf :: sp_out where
  "ex_out_inf =
     snd (projr (modifyAndSolveSP ex_engine 0 ex_xr ex_yr (projr (buildSP ex_d_inf)) ex_d_inf))"

section \<open>Verified properties\<close>

subsection \<open>Floats and sums\<close>

lemma pf_ne_PInf: "pf_ne c PInf = (c \<noteq> PInf)"
  by (cases c) (simp_all add: pf_ne_def)

lemma pf_add_zero_left: "pf_add (Fin 0) x = x"
  by (cases x) simp_all

lemma pf_add_zero_right: "pf_add x (Fin 0) = x"
  by (cases x) simp_all

subsection \<open>Infinite capacities\<close>

lemma cap_term_infinite: "cap p = PInf \<Longrightarrow> cap_term pisol cap p = Inr (Fin 0)"
  by (simp add: cap_term_def pf_ne_PInf)

text \<open>
  C2 (the bandwidth family). The three provider families guard the product with
  \<open>!= float('inf')\<close> (lemma \<open>cap_term_infinite\<close>); the bandwidth sum of lines 64 and
  78 has no guard. For a router of infinite bandwidth capacity the term is \<open>nan\<close> when
  the dual is \<open>0\<close> and \<open>-inf\<close> when the dual is negative: the contribution is not
  zero. On the small instance with an infinite bandwidth capacity the bandwidth sum, the
  dual objective and the constant of the cut are \<open>nan\<close>, and the run ends with the
  assertion error of the check of strong duality.
\<close>

theorem bandwidth_infinite_capacity_not_zero:
  "bw_term [''R1'' \<mapsto> Fin 0] (\<lambda>r. PInf) ''R1'' = Inr NaN
   \<and> bw_term [''R1'' \<mapsto> Fin (- 1)] (\<lambda>r. PInf) ''R1'' = Inr NInf
   \<and> py_sumE (map (bw_term (b_pisol ex_out_inf) (R_BCapacity ex_d_inf)) (routers ex_d_inf))
       = Inr NaN
   \<and> dualSPobj ex_d_inf 0 ex_xr ex_yr ex_out_inf = Inr NaN
   \<and> add_all (Fin 0) (const_sums ex_d_inf 0 ex_out_inf) = Inr NaN
   \<and> multiBenders 5 ex_engine (Fin 0) (Fin 1) ex_d_inf tol_1e4 tol_1e4
       = Some (Inl (AssertionError ''Strong duality''))"
  by code_simp

subsection \<open>The error monad, the scenario step and the iteration\<close>


lemma bindE_Inl [simp]: "bindE (Inl e) f = Inl e"
  by (simp add: bindE_def)

lemma bindE_Inr [simp]: "bindE (Inr x) f = f x"
  by (simp add: bindE_def)

lemma bindE_eq_Inr: "(bindE m f = Inr y) = (\<exists>x. m = Inr x \<and> f x = Inr y)"
  by (cases m) simp_all

lemma foldE_append:
  "foldE f st (xs @ ys) = bindE (foldE f st xs) (\<lambda>st'. foldE f st' ys)"
  by (induction xs arbitrary: st) (simp_all add: bindE_def split: sum.splits)

lemma after_check_Inr:
  assumes "after_check d tol nsol st s SP' out = Inr st'"
  shows "\<exists>eta expr. py_get nsol s = Inr eta \<and> cut_expr d s out = Inr expr
           \<and> st' = (if pf_lt eta (pf_sub (SPobj out) tol)
              then st\<lparr>st_SP := SP', UB := pf_add (UB st) (pf_mul (prob d s) (SPobj out)),
                      cutFound := True, noCuts := noCuts st + 1,
                      st_MP := addConstr (benders_cut s expr) (st_MP st)\<rparr>
              else st\<lparr>st_SP := SP', UB := pf_add (UB st) (pf_mul (prob d s) (SPobj out))\<rparr>)"
  using assms by (simp only: after_check_def bindE_eq_Inr sum.inject) blast

lemma scenario_body_checked:
  assumes "modifyAndSolveSP eng s xrsol yrsol (st_SP st) d = Inr (SP', out)"
    and "dualSPobj d s xrsol yrsol out = Inr dual"
  shows "scenario_body eng d tol xrsol yrsol nsol st s =
           (if pf_lt (pf_abs (pf_sub dual (SPobj out))) tol_1e4
            then after_check d tol nsol st s SP' out
            else Inl (AssertionError ''Strong duality''))"
  using assms by (simp add: scenario_body_def)

lemma scenario_body_Inr:
  assumes "scenario_body eng d tol xrsol yrsol nsol st s = Inr st'"
  shows "\<exists>SP' out dual.
           modifyAndSolveSP eng s xrsol yrsol (st_SP st) d = Inr (SP', out)
           \<and> dualSPobj d s xrsol yrsol out = Inr dual
           \<and> pf_lt (pf_abs (pf_sub dual (SPobj out))) tol_1e4
           \<and> after_check d tol nsol st s SP' out = Inr st'"
proof -
  from assms obtain r where r: "modifyAndSolveSP eng s xrsol yrsol (st_SP st) d = Inr r"
    and 1: "(case r of (SP', out) \<Rightarrow> bindE (dualSPobj d s xrsol yrsol out) (\<lambda>dual.
       if \<not> pf_lt (pf_abs (pf_sub dual (SPobj out))) tol_1e4
       then Inl (AssertionError ''Strong duality'')
       else after_check d tol nsol st s SP' out)) = Inr st'"
    unfolding scenario_body_def bindE_eq_Inr by blast
  obtain SP' out where so: "r = (SP', out)" by (cases r)
  from 1 so obtain dual where du: "dualSPobj d s xrsol yrsol out = Inr dual"
    and 2: "(if \<not> pf_lt (pf_abs (pf_sub dual (SPobj out))) tol_1e4
       then Inl (AssertionError ''Strong duality'')
       else after_check d tol nsol st s SP' out) = Inr st'"
    by (auto simp add: bindE_eq_Inr)
  from 2 have "pf_lt (pf_abs (pf_sub dual (SPobj out))) tol_1e4"
    and "after_check d tol nsol st s SP' out = Inr st'"
    by (auto split: if_splits)
  with r so du show ?thesis by blast
qed

lemma after_check_effect:
  assumes "after_check d tol nsol st s SP' out = Inr st'"
  shows "\<exists>eta expr. py_get nsol s = Inr eta \<and> cut_expr d s out = Inr expr
     \<and> st_SP st' = SP'
     \<and> UB st' = pf_add (UB st) (pf_mul (prob d s) (SPobj out))
     \<and> bestUB st' = bestUB st \<and> noIters st' = noIters st \<and> MPobj st' = MPobj st
     \<and> st_MP st' = (if pf_lt eta (pf_sub (SPobj out) tol)
                     then addConstr (benders_cut s expr) (st_MP st) else st_MP st)
     \<and> cutFound st' = (cutFound st \<or> pf_lt eta (pf_sub (SPobj out) tol))
     \<and> noCuts st' = noCuts st + (if pf_lt eta (pf_sub (SPobj out) tol) then 1 else 0)"
proof -
  from after_check_Inr [OF assms] obtain eta expr where
    e: "py_get nsol s = Inr eta" and x: "cut_expr d s out = Inr expr"
    and st': "st' = (if pf_lt eta (pf_sub (SPobj out) tol)
              then st\<lparr>st_SP := SP', UB := pf_add (UB st) (pf_mul (prob d s) (SPobj out)),
                      cutFound := True, noCuts := noCuts st + 1,
                      st_MP := addConstr (benders_cut s expr) (st_MP st)\<rparr>
              else st\<lparr>st_SP := SP', UB := pf_add (UB st) (pf_mul (prob d s) (SPobj out))\<rparr>)"
    by blast
  show ?thesis
    by (intro exI [of _ eta] exI [of _ expr]) (simp add: e x st')
qed

lemma scenarios_fold_effect:
  "foldE (scenario_body eng d tol xrsol yrsol nsol) st ss = Inr st'
   \<Longrightarrow> mconstrs (st_MP st')
         = mconstrs (st_MP st) @ map snd (violated eng d tol xrsol yrsol nsol (st_SP st) ss)
     \<and> mvars (st_MP st') = mvars (st_MP st) \<and> mobj (st_MP st') = mobj (st_MP st)
     \<and> mname (st_MP st') = mname (st_MP st) \<and> msense (st_MP st') = msense (st_MP st)
     \<and> cutFound st' = (cutFound st \<or> violated eng d tol xrsol yrsol nsol (st_SP st) ss \<noteq> [])
     \<and> noCuts st' = noCuts st + length (violated eng d tol xrsol yrsol nsol (st_SP st) ss)
     \<and> bestUB st' = bestUB st \<and> noIters st' = noIters st \<and> MPobj st' = MPobj st"
proof (induction ss arbitrary: st)
  case Nil
  then show ?case by simp
next
  case (Cons s ss)
  from Cons.prems obtain st1 where
    b: "scenario_body eng d tol xrsol yrsol nsol st s = Inr st1"
    and f: "foldE (scenario_body eng d tol xrsol yrsol nsol) st1 ss = Inr st'"
    by (auto simp add: bindE_eq_Inr)
  from scenario_body_Inr [OF b] obtain SP' out dual where
    m: "modifyAndSolveSP eng s xrsol yrsol (st_SP st) d = Inr (SP', out)"
    and a: "after_check d tol nsol st s SP' out = Inr st1"
    by blast
  from after_check_effect [OF a] obtain eta expr where
    e: "py_get nsol s = Inr eta" and x: "cut_expr d s out = Inr expr"
    and sp: "st_SP st1 = SP'"
    and mp: "st_MP st1 = (if pf_lt eta (pf_sub (SPobj out) tol)
                     then addConstr (benders_cut s expr) (st_MP st) else st_MP st)"
    and cf: "cutFound st1 = (cutFound st \<or> pf_lt eta (pf_sub (SPobj out) tol))"
    and nc: "noCuts st1 = noCuts st + (if pf_lt eta (pf_sub (SPobj out) tol) then 1 else 0)"
    and rest: "bestUB st1 = bestUB st" "noIters st1 = noIters st" "MPobj st1 = MPobj st"
    by blast
  note IH = Cons.IH [OF f]
  show ?case
    using IH by (simp add: m e x sp mp cf nc rest addConstr_def)
qed

lemma iteration_Inr:
  assumes "iteration eng d tol st = Inr st'"
  shows "\<exists>ub st2.
      reservation_cost d (xrsol_of d (eng (st_MP st))) (yrsol_of d (eng (st_MP st))) = Inr ub
    \<and> foldE (scenario_body eng d tol (xrsol_of d (eng (st_MP st))) (yrsol_of d (eng (st_MP st)))
               (nsol_of d (eng (st_MP st))))
        (st\<lparr>noIters := noIters st + 1, cutFound := False, MPobj := objVal (eng (st_MP st)),
            UB := ub\<rparr>) (scenarios d) = Inr st2
    \<and> st' = st2\<lparr>bestUB := py_min (UB st2) (bestUB st2)\<rparr>"
  using assms by (simp add: iteration_def Let_def bindE_eq_Inr) blast

lemma iteration_effect:
  assumes "iteration eng d tol st = Inr st'"
  shows "mconstrs (st_MP st')
         = mconstrs (st_MP st)
           @ map snd (violated eng d tol (xrsol_of d (eng (st_MP st))) (yrsol_of d (eng (st_MP st)))
                        (nsol_of d (eng (st_MP st))) (st_SP st) (scenarios d))"
    and "mvars (st_MP st') = mvars (st_MP st)" and "mobj (st_MP st') = mobj (st_MP st)"
    and "mname (st_MP st') = mname (st_MP st)" and "msense (st_MP st') = msense (st_MP st)"
    and "cutFound st'
         = (violated eng d tol (xrsol_of d (eng (st_MP st))) (yrsol_of d (eng (st_MP st)))
                        (nsol_of d (eng (st_MP st))) (st_SP st) (scenarios d) \<noteq> [])"
    and "noCuts st'
         = noCuts st + length (violated eng d tol (xrsol_of d (eng (st_MP st)))
                        (yrsol_of d (eng (st_MP st)))
                        (nsol_of d (eng (st_MP st))) (st_SP st) (scenarios d))"
    and "noIters st' = noIters st + 1"
    and "MPobj st' = objVal (eng (st_MP st))"
proof -
  from iteration_Inr [OF assms] obtain ub st2 where
    f: "foldE (scenario_body eng d tol (xrsol_of d (eng (st_MP st))) (yrsol_of d (eng (st_MP st)))
               (nsol_of d (eng (st_MP st))))
        (st\<lparr>noIters := noIters st + 1, cutFound := False, MPobj := objVal (eng (st_MP st)),
            UB := ub\<rparr>) (scenarios d) = Inr st2"
    and st': "st' = st2\<lparr>bestUB := py_min (UB st2) (bestUB st2)\<rparr>"
    by blast
  note E = scenarios_fold_effect [OF f]
  show "mconstrs (st_MP st')
         = mconstrs (st_MP st)
           @ map snd (violated eng d tol (xrsol_of d (eng (st_MP st))) (yrsol_of d (eng (st_MP st)))
                        (nsol_of d (eng (st_MP st))) (st_SP st) (scenarios d))"
    using E by (simp add: st')
  show "mvars (st_MP st') = mvars (st_MP st)" using E by (simp add: st')
  show "mobj (st_MP st') = mobj (st_MP st)" using E by (simp add: st')
  show "mname (st_MP st') = mname (st_MP st)" using E by (simp add: st')
  show "msense (st_MP st') = msense (st_MP st)" using E by (simp add: st')
  show "cutFound st'
         = (violated eng d tol (xrsol_of d (eng (st_MP st))) (yrsol_of d (eng (st_MP st)))
                        (nsol_of d (eng (st_MP st))) (st_SP st) (scenarios d) \<noteq> [])"
    using E by (simp add: st')
  show "noCuts st'
         = noCuts st + length (violated eng d tol (xrsol_of d (eng (st_MP st)))
                        (yrsol_of d (eng (st_MP st)))
                        (nsol_of d (eng (st_MP st))) (st_SP st) (scenarios d))"
    using E by (simp add: st')
  show "noIters st' = noIters st + 1" using E by (simp add: st')
  show "MPobj st' = objVal (eng (st_MP st))" using E by (simp add: st')
qed


lemma loop_abort:
  "cutFound st \<Longrightarrow> iteration eng d tol st = Inl e
   \<Longrightarrow> benders_loop (Suc k) eng d tol epsilon st = Some (Inl e)"
  by simp

lemma loop_one_iteration:
  "cutFound st \<Longrightarrow> iteration eng d tol st = Inr st' \<Longrightarrow> \<not> cutFound st'
   \<Longrightarrow> benders_loop (Suc (Suc k)) eng d tol epsilon st
       = Some (Inr (st', pf_le (gap st') epsilon))"
  by simp

subsection \<open>The form of a cut\<close>





subsection \<open>The end of the loop\<close>




subsection \<open>The cuts of an iteration\<close>




lemma ex_isr_msp: "\<not> isl (modifyAndSolveSP ex_engine 0 ex_xr ex_yr (st_SP ex_init) ex_d)"
  by code_simp


subsection \<open>The check of strong duality, and the iteration without a violated cut\<close>

text \<open>
  C4. For every scenario the driver rebuilds the dual objective \<open>dualSPobj\<close> from the
  duals and the fixed first-stage values. If its distance to the objective of the
  subproblem is not below \<open>1e-4\<close>, the scenario step, and with it the loop over the
  scenarios, ends with the assertion error \<open>Strong duality\<close>; otherwise the step is the
  rest of the loop body, untouched by the check.
\<close>

theorem strong_duality_check:
  assumes "modifyAndSolveSP eng s xrsol yrsol (st_SP st) d = Inr (SP', out)"
    and "dualSPobj d s xrsol yrsol out = Inr dual"
  shows "(\<not> pf_lt (pf_abs (pf_sub dual (SPobj out))) tol_1e4 \<longrightarrow>
            scenario_body eng d tol xrsol yrsol nsol st s = Inl (AssertionError ''Strong duality'')
          \<and> foldE (scenario_body eng d tol xrsol yrsol nsol) st (s # rest)
              = Inl (AssertionError ''Strong duality''))
       \<and> (pf_lt (pf_abs (pf_sub dual (SPobj out))) tol_1e4 \<longrightarrow>
            scenario_body eng d tol xrsol yrsol nsol st s = after_check d tol nsol st s SP' out)"
  by (simp add: scenario_body_checked [OF assms])

lemma ex_isr_msp_bad:
  "\<not> isl (modifyAndSolveSP ex_bad_engine 0 ex_xr ex_yr (st_SP ex_init) ex_d)"
  by code_simp

lemma ex_isr_dual:
  "\<not> isl (dualSPobj ex_d 0 ex_xr ex_yr
            (snd (projr (modifyAndSolveSP ex_engine 0 ex_xr ex_yr (st_SP ex_init) ex_d))))"
  by code_simp

lemma ex_isr_dual_bad:
  "\<not> isl (dualSPobj ex_d 0 ex_xr ex_yr
            (snd (projr (modifyAndSolveSP ex_bad_engine 0 ex_xr ex_yr (st_SP ex_init) ex_d))))"
  by code_simp

lemma ex_dual_ok:
  "pf_lt (pf_abs (pf_sub
      (projr (dualSPobj ex_d 0 ex_xr ex_yr
            (snd (projr (modifyAndSolveSP ex_engine 0 ex_xr ex_yr (st_SP ex_init) ex_d)))))
      (SPobj (snd (projr (modifyAndSolveSP ex_engine 0 ex_xr ex_yr (st_SP ex_init) ex_d))))))
     tol_1e4"
  by code_simp

lemma ex_dual_bad:
  "\<not> pf_lt (pf_abs (pf_sub
      (projr (dualSPobj ex_d 0 ex_xr ex_yr
            (snd (projr (modifyAndSolveSP ex_bad_engine 0 ex_xr ex_yr (st_SP ex_init) ex_d)))))
      (SPobj (snd (projr (modifyAndSolveSP ex_bad_engine 0 ex_xr ex_yr (st_SP ex_init) ex_d))))))
     tol_1e4"
  by code_simp

lemma ex_bad_run:
  "multiBenders 5 ex_bad_engine (Fin 0) (Fin 1) ex_d tol_1e4 tol_1e4
   = Some (Inl (AssertionError ''Strong duality''))"
  by code_simp

theorem strong_duality_check_witness:
  "scenario_body ex_bad_engine ex_d tol_1e4 ex_xr ex_yr ex_n ex_init 0
     = Inl (AssertionError ''Strong duality'')
   \<and> foldE (scenario_body ex_bad_engine ex_d tol_1e4 ex_xr ex_yr ex_n) ex_init [0]
     = Inl (AssertionError ''Strong duality'')
   \<and> multiBenders 5 ex_bad_engine (Fin 0) (Fin 1) ex_d tol_1e4 tol_1e4
     = Some (Inl (AssertionError ''Strong duality''))
   \<and> scenario_body ex_engine ex_d tol_1e4 ex_xr ex_yr ex_n ex_init 0
     = after_check ex_d tol_1e4 ex_n ex_init 0
         (fst (projr (modifyAndSolveSP ex_engine 0 ex_xr ex_yr (st_SP ex_init) ex_d)))
         (snd (projr (modifyAndSolveSP ex_engine 0 ex_xr ex_yr (st_SP ex_init) ex_d)))"
proof -
  let ?B = "modifyAndSolveSP ex_bad_engine 0 ex_xr ex_yr (st_SP ex_init) ex_d"
  let ?G = "modifyAndSolveSP ex_engine 0 ex_xr ex_yr (st_SP ex_init) ex_d"
  have b1: "?B = Inr (fst (projr ?B), snd (projr ?B))"
    using ex_isr_msp_bad by (cases ?B) simp_all
  have b2: "dualSPobj ex_d 0 ex_xr ex_yr (snd (projr ?B))
            = Inr (projr (dualSPobj ex_d 0 ex_xr ex_yr (snd (projr ?B))))"
    using ex_isr_dual_bad by (cases "dualSPobj ex_d 0 ex_xr ex_yr (snd (projr ?B))") simp_all
  have "\<not> isl ?G" by code_simp
  then have g1: "?G = Inr (fst (projr ?G), snd (projr ?G))"
    by (cases ?G) simp_all
  have g2: "dualSPobj ex_d 0 ex_xr ex_yr (snd (projr ?G))
            = Inr (projr (dualSPobj ex_d 0 ex_xr ex_yr (snd (projr ?G))))"
    using ex_isr_dual by (cases "dualSPobj ex_d 0 ex_xr ex_yr (snd (projr ?G))") simp_all
  from strong_duality_check [OF b1 b2, of tol_1e4 ex_n "[]"] ex_dual_bad
  have bad: "scenario_body ex_bad_engine ex_d tol_1e4 ex_xr ex_yr ex_n ex_init 0
     = Inl (AssertionError ''Strong duality'')
   \<and> foldE (scenario_body ex_bad_engine ex_d tol_1e4 ex_xr ex_yr ex_n) ex_init [0]
     = Inl (AssertionError ''Strong duality'')"
    by blast
  from strong_duality_check [OF g1 g2, of tol_1e4 ex_n "[]"] ex_dual_ok
  have good: "scenario_body ex_engine ex_d tol_1e4 ex_xr ex_yr ex_n ex_init 0
     = after_check ex_d tol_1e4 ex_n ex_init 0 (fst (projr ?G)) (snd (projr ?G))"
    by blast
  from bad good ex_bad_run show ?thesis by blast
qed

text \<open>
  C6. If no scenario of an iteration is violated, the iteration adds no constraint to
  the master and leaves the cut count as it is, and the loop ends after it; a run whose
  first iteration is of this kind returns with one iteration and no cut.
\<close>

theorem no_violation_ends_the_loop:
  assumes "cutFound st" and "iteration eng d tol st = Inr st'"
    and "violated eng d tol (xrsol_of d (eng (st_MP st))) (yrsol_of d (eng (st_MP st)))
           (nsol_of d (eng (st_MP st))) (st_SP st) (scenarios d) = []"
  shows "mconstrs (st_MP st') = mconstrs (st_MP st) \<and> noCuts st' = noCuts st
       \<and> \<not> cutFound st' \<and> noIters st' = noIters st + 1
       \<and> benders_loop (Suc (Suc k)) eng d tol epsilon st
           = Some (Inr (st', pf_le (gap st') epsilon))
       \<and> (\<forall>SP. buildSP d = Inr SP \<and> st = init_state (buildMP d) SP \<longrightarrow>
            multiBenders (Suc (Suc k)) eng tick tock d tol epsilon
            = Some (Inr (MPobj st', pf_sub tock tick, 1, 0)))"
proof -
  note E = iteration_effect [OF assms(2)]
  have c: "mconstrs (st_MP st') = mconstrs (st_MP st)" using E(1) assms(3) by simp
  have n: "noCuts st' = noCuts st" using E(7) assms(3) by simp
  have f: "\<not> cutFound st'" using E(6) assms(3) by simp
  have i: "noIters st' = noIters st + 1" by (rule E(8))
  have l: "benders_loop (Suc (Suc k)) eng d tol epsilon st
           = Some (Inr (st', pf_le (gap st') epsilon))"
    using assms(1,2) f by (rule loop_one_iteration)
  have m: "\<forall>SP. buildSP d = Inr SP \<and> st = init_state (buildMP d) SP \<longrightarrow>
            multiBenders (Suc (Suc k)) eng tick tock d tol epsilon
            = Some (Inr (MPobj st', pf_sub tock tick, 1, 0))"
  proof (intro allI impI)
    fix SP assume a: "buildSP d = Inr SP \<and> st = init_state (buildMP d) SP"
    then have "noIters st = 0" and "noCuts st = 0" by (simp_all add: init_state_def)
    with i n have "noIters st' = 1" and "noCuts st' = 0" by simp_all
    with a l show "multiBenders (Suc (Suc k)) eng tick tock d tol epsilon
            = Some (Inr (MPobj st', pf_sub tock tick, 1, 0))"
      by (simp add: multiBenders_def del: benders_loop.simps)
  qed
  from c n f i l m show ?thesis by blast
qed

lemma ex_st1_cut: "cutFound ex_st1"
  by code_simp

lemma ex_iteration2:
  "iteration ex_engine ex_d tol_1e4 ex_st1 = Inr (ex_final tol_1e4)"
  by code_simp

lemma ex_no_violation2:
  "violated ex_engine ex_d tol_1e4 (xrsol_of ex_d (ex_engine (st_MP ex_st1)))
     (yrsol_of ex_d (ex_engine (st_MP ex_st1))) (nsol_of ex_d (ex_engine (st_MP ex_st1)))
     (st_SP ex_st1) (scenarios ex_d) = []"
  by code_simp

lemma ex_init_cut: "cutFound ex_init"
  by code_simp

lemma ex_iteration_tol1:
  "iteration ex_engine ex_d (Fin 1) ex_init = Inr (ex_final (Fin 1))"
  by code_simp

lemma ex_no_violation_tol1:
  "violated ex_engine ex_d (Fin 1) (xrsol_of ex_d (ex_engine (st_MP ex_init)))
     (yrsol_of ex_d (ex_engine (st_MP ex_init))) (nsol_of ex_d (ex_engine (st_MP ex_init)))
     (st_SP ex_init) (scenarios ex_d) = []"
  by code_simp

lemma ex_buildSP: "buildSP ex_d = Inr (projr (buildSP ex_d))"
  by code_simp

theorem no_violation_ends_the_loop_witness:
  "mconstrs (st_MP (ex_final tol_1e4)) = mconstrs (st_MP ex_st1)
   \<and> noIters (ex_final tol_1e4) = noIters ex_st1 + 1
   \<and> benders_loop 2 ex_engine ex_d tol_1e4 tol_1e4 ex_st1
       = Some (Inr (ex_final tol_1e4, pf_le (gap (ex_final tol_1e4)) tol_1e4))
   \<and> multiBenders 2 ex_engine (Fin 0) (Fin 1) ex_d (Fin 1) tol_1e4
       = Some (Inr (MPobj (ex_final (Fin 1)), pf_sub (Fin 1) (Fin 0), 1, 0))"
proof -
  from no_violation_ends_the_loop [OF ex_st1_cut ex_iteration2 ex_no_violation2,
      of 0 tol_1e4 "Fin 0" "Fin 1"]
  have 1: "mconstrs (st_MP (ex_final tol_1e4)) = mconstrs (st_MP ex_st1)
   \<and> noIters (ex_final tol_1e4) = noIters ex_st1 + 1
   \<and> benders_loop 2 ex_engine ex_d tol_1e4 tol_1e4 ex_st1
       = Some (Inr (ex_final tol_1e4, pf_le (gap (ex_final tol_1e4)) tol_1e4))"
    by (simp only: numeral_2_eq_2)
  from no_violation_ends_the_loop [OF ex_init_cut ex_iteration_tol1 ex_no_violation_tol1,
      of 0 tol_1e4 "Fin 0" "Fin 1"] ex_buildSP
  have 2: "multiBenders 2 ex_engine (Fin 0) (Fin 1) ex_d (Fin 1) tol_1e4
       = Some (Inr (MPobj (ex_final (Fin 1)), pf_sub (Fin 1) (Fin 0), 1, 0))"
    by ((simp only: numeral_2_eq_2 ex_init_def)?, blast?)
  from 1 2 show ?thesis by blast
qed

subsection \<open>Constraint names\<close>

lemma split_on_nonempty: "split_on c xs \<noteq> []"
  by (induction xs) (auto split: list.splits)

lemma split_on_length: "length (split_on c xs) = Suc (length (filter (\<lambda>x. x = c) xs))"
  by (induction xs) (auto split: list.splits simp add: split_on_nonempty)



lemma split_on_one: "split_on c xs = [w] \<Longrightarrow> c \<notin> set xs"
proof -
  assume "split_on c xs = [w]"
  then have "length (split_on c xs) = 1" by simp
  then have "filter (\<lambda>x. x = c) xs = []" by (simp add: split_on_length)
  then show ?thesis by (auto simp add: filter_empty_conv)
qed







subsection \<open>The mutation of the subproblem model\<close>
























subsection \<open>The master model\<close>

text \<open>
  C7, as the code has it. The master has the integer reservations, the continuous router
  reservations and one continuous \<open>eta\<close> for each scenario, every one of them with the
  default bounds \<open>0\<close> and \<open>inf\<close>, for every instance; the objective is the sum of the
  reservation costs and of the weighted \<open>eta\<close>, to be minimised; there is no constraint.
\<close>

theorem buildMP_model:
  "mvars (buildMP d) =
     map (\<lambda>k. \<lparr>vkey = k, vlb = Fin 0, vub = PInf, vty = INTEGER\<rparr>)
       [XR u v p. u \<leftarrow> users d, v \<leftarrow> VMs d, p \<leftarrow> providers d]
     @ map (\<lambda>k. \<lparr>vkey = k, vlb = Fin 0, vub = PInf, vty = CONTINUOUS\<rparr>)
         [YR u r. u \<leftarrow> users d, r \<leftarrow> routers d]
     @ map (\<lambda>k. \<lparr>vkey = k, vlb = Fin 0, vub = PInf, vty = CONTINUOUS\<rparr>)
         [ETA s. s \<leftarrow> scenarios d]
   \<and> mobj (buildMP d) =
       [(VM_rcost d v, XR u v p). p \<leftarrow> providers d, v \<leftarrow> VMs d, u \<leftarrow> users d]
       @ [(R_rcost d r, YR u r). r \<leftarrow> routers d, u \<leftarrow> users d]
       @ [(prob d s, ETA s). s \<leftarrow> scenarios d]
   \<and> msense (buildMP d) = MINIMIZE
   \<and> mconstrs (buildMP d) = []"
  by (simp add: buildMP_def Model_def addVars_def setObjective_def mp_objective_def
      GRB_default_lb_def)

theorem buildMP_model_witness:
  "mvars (buildMP ex_d) =
     [\<lparr>vkey = XR ''U1'' ''V1'' ''P1'', vlb = Fin 0, vub = PInf, vty = INTEGER\<rparr>,
      \<lparr>vkey = YR ''U1'' ''R1'', vlb = Fin 0, vub = PInf, vty = CONTINUOUS\<rparr>,
      \<lparr>vkey = ETA 0, vlb = Fin 0, vub = PInf, vty = CONTINUOUS\<rparr>]
   \<and> mobj (buildMP ex_d) =
       [(Fin 1, XR ''U1'' ''V1'' ''P1''), (Fin 1, YR ''U1'' ''R1''), (Fin 1, ETA 0)]
   \<and> msense (buildMP ex_d) = MINIMIZE
   \<and> mconstrs (buildMP ex_d) = []"
  using buildMP_model [of ex_d] by (simp add: ex_d_def)

text \<open>
  C7, as it is stated, fails: \<open>eta\<close> is not unrestricted below. On an instance with a
  negative on-demand cost, where the recourse cost is negative, its lower bound is \<open>0\<close>
  all the same.
\<close>

theorem eta_bounded_below:
  "filter (\<lambda>x. vkey x = ETA 0) (mvars (buildMP ex_d_neg))
     = [\<lparr>vkey = ETA 0, vlb = Fin 0, vub = PInf, vty = CONTINUOUS\<rparr>]
   \<and> VM_ocost ex_d_neg (0, ''V1'') = Fin (- 1)"
  by code_simp

subsection \<open>The user balance\<close>


lemma filterE_total:
  "\<forall>x \<in> set xs. t x = Inr (q x) \<Longrightarrow> filterE t xs = Inr (filter q xs)"
  by (induction xs) simp_all









subsection \<open>The bounds\<close>
















end
